theory Spec2Isabelle
  imports Main "HOL-Library.Multiset"
begin

section \<open>Python strings and exceptions\<close>

text \<open>
  A Python \<open>str\<close> is modelled as a HOL \<open>string\<close>, each \<open>char\<close> standing for one code
  point in the range 0..255. \<open>isspace\<close> lists the code points of that range that
  \<open>str.strip()\<close> removes (the ones for which \<open>str.isspace\<close> holds): TAB, LF, VT, FF, CR,
  the separators 0x1C..0x1F, SPACE, NEL (0x85) and the no-break space (0xA0).
\<close>

definition isspace :: "char \<Rightarrow> bool" where
  "isspace c = (c \<in> {CHR 0x09, CHR 0x0A, CHR 0x0B, CHR 0x0C, CHR 0x0D,
                      CHR 0x1C, CHR 0x1D, CHR 0x1E, CHR 0x1F, CHR 0x20,
                      CHR 0x85, CHR 0xA0})"

definition lstrip :: "string \<Rightarrow> string" where
  "lstrip s = dropWhile isspace s"

definition rstrip :: "string \<Rightarrow> string" where
  "rstrip s = rev (dropWhile isspace (rev s))"

text \<open>\<open>s.strip()\<close>\<close>

definition strip :: "string \<Rightarrow> string" where
  "strip s = rstrip (lstrip s)"

text \<open>\<open>sep.join(xs)\<close>\<close>

fun join :: "string \<Rightarrow> string list \<Rightarrow> string" where
  "join sep [] = []"
| "join sep [x] = x"
| "join sep (x # y # ys) = x @ sep @ join sep (y # ys)"

text \<open>\<open>s.split(sep)\<close> for a one-character separator; used to count the lines of a text.\<close>

fun split_chr :: "char \<Rightarrow> string \<Rightarrow> string list" where
  "split_chr sep [] = [[]]"
| "split_chr sep (c # cs) =
     (if c = sep then [] # split_chr sep cs
      else (case split_chr sep cs of [] \<Rightarrow> [[c]] | l # ls \<Rightarrow> (c # l) # ls))"

definition newline :: char where
  "newline = CHR 0x0A"

text \<open>
  The exceptions the chat code raises or catches. Each carries the text that \<open>str(e)\<close>
  yields. \<open>OtherError\<close> stands for any exception raised by a collaborator (the model
  API, a test double).
\<close>

datatype error =
    ValueError string
  | ChatServiceError string
  | ValidationError string
  | IntegrityError string
  | OperationalError string
  | OtherError string

fun err_str :: "error \<Rightarrow> string" where
  "err_str (ValueError m) = m"
| "err_str (ChatServiceError m) = m"
| "err_str (ValidationError m) = m"
| "err_str (IntegrityError m) = m"
| "err_str (OperationalError m) = m"
| "err_str (OtherError m) = m"

text \<open>
  \<open>ChatServiceError.__init__\<close> (domain/exceptions.py): the stored message is prefixed,
  and a falsy (empty) message gives the bare prefix.
\<close>

definition raise_ChatServiceError :: "string \<Rightarrow> error" where
  "raise_ChatServiceError message =
     (if message \<noteq> [] then ChatServiceError (''Error en el servicio de chat: '' @ message)
      else ChatServiceError ''Error en el servicio de chat'')"

section \<open>Domain entities (domain/entities.py)\<close>

text \<open>
  A timestamp is an \<open>int\<close> (a count of microseconds): all that the code does with a
  \<open>datetime\<close> is to store and compare it.
\<close>

record ChatMessage =
  id_field :: "int option"
  session_id :: string
  role :: string
  message :: string
  timestamp :: int

text \<open>Accented letters of the messages, as Latin-1 code points.\<close>

definition i_acute :: char where "i_acute = CHR 0xED"
definition e_acute :: char where "e_acute = CHR 0xE9"
definition o_acute :: char where "o_acute = CHR 0xF3"
definition O_acute :: char where "O_acute = CHR 0xD3"

text \<open>
  The dataclass constructor followed by \<open>__post_init__\<close>: the three checks in the
  source's order, each raising \<open>ValueError\<close>.
\<close>

definition ChatMessage_init ::
  "int option \<Rightarrow> string \<Rightarrow> string \<Rightarrow> string \<Rightarrow> int \<Rightarrow> error + ChatMessage" where
  "ChatMessage_init i sid r msg ts =
     (if sid = [] \<or> strip sid = [] then
        Inl (ValueError (''session_id no puede estar vac'' @ [i_acute] @ ''o''))
      else if msg = [] \<or> strip msg = [] then
        Inl (ValueError (''message no puede estar vac'' @ [i_acute] @ ''o''))
      else if r \<notin> {''user'', ''assistant''} then
        Inl (ValueError (''role debe ser 'user' o 'assistant'' @ [CHR 0x27]))
      else Inr \<lparr>id_field = i, session_id = sid, role = r, message = msg, timestamp = ts\<rparr>)"

definition is_from_user :: "ChatMessage \<Rightarrow> bool" where
  "is_from_user m = (role m = ''user'')"

definition is_from_assistant :: "ChatMessage \<Rightarrow> bool" where
  "is_from_assistant m = (role m = ''assistant'')"

record ChatContext =
  messages :: "ChatMessage list"
  max_messages :: int

text \<open>
  The Python slice \<open>xs[start:]\<close>: a negative start counts from the end and is clamped
  at 0, a start beyond the end gives the empty list.
\<close>

definition py_slice_from :: "'a list \<Rightarrow> int \<Rightarrow> 'a list" where
  "py_slice_from xs start =
     (let n = int (length xs);
          s = (if start < 0 then max 0 (n + start) else min start n)
      in drop (nat s) xs)"

text \<open>
  \<open>ChatContext.get_recent_messages\<close>: \<open>recent = self.messages[-self.max_messages:]\<close>,
  then \<open>sorted(recent, key=lambda m: m.timestamp)\<close> unless \<open>recent\<close> is empty. Python's
  \<open>sorted\<close> is a stable ascending sort, as \<open>sort_key\<close> is.
\<close>

definition get_recent_messages :: "ChatContext \<Rightarrow> ChatMessage list" where
  "get_recent_messages ctx =
     (let recent = py_slice_from (messages ctx) (- max_messages ctx)
      in if length recent = 0 then recent else sort_key timestamp recent)"

definition render_line :: "ChatMessage \<Rightarrow> string" where
  "render_line msg =
     (if is_from_user msg then ''Usuario'' else ''Asistente'') @ '': '' @ message msg"

definition format_for_prompt :: "ChatContext \<Rightarrow> string" where
  "format_for_prompt ctx = join [newline] (map render_line (get_recent_messages ctx))"

section \<open>The generation adapter (infrastructure/llm_providers/gemini_service.py)\<close>

text \<open>
  \<open>format_products_info\<close>: the marker for an empty catalogue, otherwise one line per
  product. The line of one product is an f-string over a float price (\<open>:.2f\<close>) and is
  taken as the parameter \<open>product_line\<close>.
\<close>

definition format_products_info :: "('p \<Rightarrow> string) \<Rightarrow> 'p list \<Rightarrow> string" where
  "format_products_info product_line products =
     (if products = [] then ''No hay productos disponibles en este momento.''
      else join [newline] (map product_line products))"

definition no_context_marker :: string where
  "no_context_marker = ''No hay mensajes previos.''"

text \<open>The f-string of \<open>generate_response\<close>, line by line; it starts and ends with a newline.\<close>

definition build_prompt :: "string \<Rightarrow> string \<Rightarrow> string \<Rightarrow> string" where
  "build_prompt products_text context_text user_message =
     join [newline]
      ['''',
       ''Eres un asistente virtual experto en ventas de zapatos para un e-commerce.'',
       ''Tu objetivo es ayudar a los clientes a encontrar los zapatos perfectos.'',
       '''',
       ''PRODUCTOS DISPONIBLES:'',
       products_text,
       '''',
       ''INSTRUCCIONES:'',
       ''- S'' @ [e_acute] @ '' amigable y profesional'',
       ''- Usa el contexto de la conversaci'' @ [o_acute] @ ''n anterior'',
       ''- Recomienda productos espec'' @ [i_acute] @ ''ficos cuando sea apropiado'',
       ''- Menciona precios, tallas y disponibilidad'',
       ''- Si no tienes informaci'' @ [o_acute] @ ''n, s'' @ [e_acute] @ '' honesto'',
       '''',
       ''CONVERSACI'' @ [O_acute] @ ''N ANTERIOR:'',
       context_text,
       '''',
       ''Usuario: '' @ user_message,
       '''',
       ''Asistente:'',
       '''']"

text \<open>
  What \<open>generate_content_async\<close> hands back: no response object (a falsy one), or a
  response whose \<open>text\<close> is \<open>None\<close> or a string. A raise of the call, or of reading
  \<open>response.text\<close>, is the \<open>Inl\<close> of the \<open>model\<close> parameter below.
\<close>

datatype api_response = NoResponse | Response "string option"

definition no_response_text :: string where
  "no_response_text = ''No se pudo generar una respuesta.''"

text \<open>\<open>GeminiService._generate_text\<close>\<close>

definition generate_text :: "(string \<Rightarrow> error + api_response) \<Rightarrow> string \<Rightarrow> error + string" where
  "generate_text model prompt =
     (case model prompt of
        Inl e \<Rightarrow> Inl (raise_ChatServiceError (''Error en la API de Gemini: '' @ err_str e))
      | Inr NoResponse \<Rightarrow> Inr no_response_text
      | Inr (Response None) \<Rightarrow> Inr no_response_text
      | Inr (Response (Some t)) \<Rightarrow> Inr (if t \<noteq> [] then t else no_response_text))"

text \<open>
  Steps 1 to 3 of \<open>GeminiService.generate_response\<close>: the prompt that is sent. The test
  \<open>if context\<close> is the truthiness of the object: a \<open>ChatContext\<close> defines neither
  \<open>__bool__\<close> nor \<open>__len__\<close>, so every instance is truthy and only \<open>None\<close> is falsy.
\<close>

definition gemini_prompt ::
  "('p \<Rightarrow> string) \<Rightarrow> string \<Rightarrow> 'p list \<Rightarrow> ChatContext option \<Rightarrow> string" where
  "gemini_prompt product_line user_message products context =
     (let products_text = format_products_info product_line products;
          context_text = (case context of Some ctx \<Rightarrow> format_for_prompt ctx
                          | None \<Rightarrow> no_context_marker)
      in build_prompt products_text context_text user_message)"

text \<open>
  \<open>GeminiService.generate_response\<close>: steps 4 and 5, inside the \<open>try\<close> whose handler
  wraps every exception, the one of \<open>_generate_text\<close> included.
\<close>

definition generate_response ::
  "(string \<Rightarrow> error + api_response) \<Rightarrow> ('p \<Rightarrow> string) \<Rightarrow>
   string \<Rightarrow> 'p list \<Rightarrow> ChatContext option \<Rightarrow> error + string" where
  "generate_response model product_line user_message products context =
     (case generate_text model (gemini_prompt product_line user_message products context) of
        Inl e \<Rightarrow>
          Inl (raise_ChatServiceError (''Error al generar respuesta de Gemini: '' @ err_str e))
      | Inr response \<Rightarrow> Inr (strip response))"

section \<open>The chat repository (infrastructure/repositories/chat_repository.py)\<close>

text \<open>
  A row of the table \<open>chat_memory\<close>, and the table as the list of its rows in insertion
  order. The database is SQLite (infrastructure/db/database.py) and is taken to be
  available: its statements do not raise, except for an insert that finds no key.
\<close>

record ChatMemoryModel =
  row_id :: int
  row_session_id :: string
  row_role :: string
  row_message :: string
  row_timestamp :: int

type_synonym chat_memory = "ChatMemoryModel list"

text \<open>\<open>_model_to_entity\<close> builds a \<open>ChatMessage\<close>, so it runs the checks of the constructor.\<close>

definition model_to_entity :: "ChatMemoryModel \<Rightarrow> error + ChatMessage" where
  "model_to_entity model =
     ChatMessage_init (Some (row_id model)) (row_session_id model) (row_role model)
       (row_message model) (row_timestamp model)"

text \<open>A list comprehension over a function that may raise: the first raise wins.\<close>

fun map_result :: "('a \<Rightarrow> error + 'b) \<Rightarrow> 'a list \<Rightarrow> error + 'b list" where
  "map_result f [] = Inr []"
| "map_result f (x # xs) =
     (case f x of Inl e \<Rightarrow> Inl e
      | Inr y \<Rightarrow> (case map_result f xs of Inl e \<Rightarrow> Inl e | Inr ys \<Rightarrow> Inr (y # ys)))"

text \<open>
  The integer primary key that SQLite gives a row inserted without one (the column is
  an \<open>INTEGER PRIMARY KEY\<close> without \<open>AUTOINCREMENT\<close>): 1 for an empty table, else one
  more than the largest key in use. When the largest key is the largest 64-bit integer,
  SQLite tries positive keys at random: \<open>pick\<close> is the unused key that search ends with,
  or \<open>None\<close> when it gives up and the insert fails (\<open>SQLITE_FULL\<close>).
\<close>

definition max_rowid :: int where
  "max_rowid = 9223372036854775807"

definition min_rowid :: int where
  "min_rowid = - 9223372036854775808"

definition new_rowid :: "int option \<Rightarrow> chat_memory \<Rightarrow> error + int" where
  "new_rowid pick db =
     (case map row_id db of
        [] \<Rightarrow> Inr 1
      | i # js \<Rightarrow>
          if fold max js i < max_rowid then Inr (fold max js i + 1)
          else (case pick of
                  None \<Rightarrow> Inl (OperationalError ''database or disk is full'')
                | Some k \<Rightarrow>
                    if 1 \<le> k \<and> k \<le> max_rowid \<and> k \<notin> set (i # js) then Inr k
                    else Inl (OperationalError ''database or disk is full'')))"

text \<open>
  \<open>save_message\<close>: \<open>_entity_to_model\<close>, \<open>add\<close>, \<open>commit\<close>, \<open>refresh\<close>, then
  \<open>_model_to_entity\<close> on the committed row. An entity that brings its own key is
  inserted under that key, if it is a 64-bit integer not yet in use.
\<close>

definition save_message ::
  "int option \<Rightarrow> chat_memory \<Rightarrow> ChatMessage \<Rightarrow> (error + ChatMessage) \<times> chat_memory" where
  "save_message pick db msg =
     (case (case id_field msg of
              None \<Rightarrow> new_rowid pick db
            | Some j \<Rightarrow>
                if j < min_rowid \<or> max_rowid < j then
                  Inl (OtherError ''Python int too large to convert to SQLite INTEGER'')
                else if j \<in> set (map row_id db) then
                  Inl (IntegrityError ''UNIQUE constraint failed: chat_memory.id'')
                else Inr j) of
        Inl e \<Rightarrow> (Inl e, db)
      | Inr i \<Rightarrow>
          (let model = \<lparr>row_id = i, row_session_id = session_id msg, row_role = role msg,
                         row_message = message msg, row_timestamp = timestamp msg\<rparr>
           in (model_to_entity model, db @ [model])))"

text \<open>
  \<open>ORDER BY timestamp DESC\<close>; rows of equal timestamp stay in table order. \<open>LIMIT n\<close> in
  SQLite: a negative \<open>n\<close> is no limit.
\<close>

definition order_by_desc_timestamp :: "chat_memory \<Rightarrow> chat_memory" where
  "order_by_desc_timestamp rows = sort_key (\<lambda>m. - row_timestamp m) rows"

definition sql_limit :: "int \<Rightarrow> 'a list \<Rightarrow> 'a list" where
  "sql_limit n rows = (if n < 0 then rows else take (nat n) rows)"

definition session_rows :: "chat_memory \<Rightarrow> string \<Rightarrow> chat_memory" where
  "session_rows db sid = filter (\<lambda>m. row_session_id m = sid) db"

text \<open>\<open>SQLChatRepository.get_session_history\<close>; \<open>if limit\<close> is false for \<open>None\<close> and for 0.\<close>

definition SQLChatRepository_get_session_history ::
  "chat_memory \<Rightarrow> string \<Rightarrow> int option \<Rightarrow> error + ChatMessage list" where
  "SQLChatRepository_get_session_history db sid limit =
     (let query = order_by_desc_timestamp (session_rows db sid);
          query = (case limit of None \<Rightarrow> query
                   | Some n \<Rightarrow> if n \<noteq> 0 then sql_limit n query else query);
          models = rev query
      in map_result model_to_entity models)"

text \<open>\<open>SQLChatRepository.get_recent_messages\<close>\<close>

definition SQLChatRepository_get_recent_messages ::
  "chat_memory \<Rightarrow> string \<Rightarrow> int \<Rightarrow> error + ChatMessage list" where
  "SQLChatRepository_get_recent_messages db sid count_arg =
     (let query = sql_limit count_arg (order_by_desc_timestamp (session_rows db sid));
          models = rev query
      in map_result model_to_entity models)"

text \<open>\<open>SQLChatRepository.delete_session_history\<close>: each row found is deleted by its key.\<close>

definition delete_session_history :: "chat_memory \<Rightarrow> string \<Rightarrow> int \<times> chat_memory" where
  "delete_session_history db sid =
     (let models = session_rows db sid;
          deleted_count = int (length models)
      in (deleted_count, filter (\<lambda>m. row_id m \<notin> set (map row_id models)) db))"

section \<open>The chat service (application/chat_service.py)\<close>

record ChatMessageRequestDTO =
  req_session_id :: string
  req_message :: string

record ChatMessageResponseDTO =
  resp_session_id :: string
  resp_user_message :: string
  resp_assistant_message :: string
  resp_timestamp :: int

record ChatHistoryDTO =
  dto_id :: int
  dto_role :: string
  dto_message :: string
  dto_timestamp :: int

text \<open>\<open>ChatHistoryDTO.model_validate(msg)\<close>: the field \<open>id\<close> is an \<open>int\<close>, so \<open>None\<close> is refused.\<close>

definition model_validate :: "ChatMessage \<Rightarrow> error + ChatHistoryDTO" where
  "model_validate msg =
     (case id_field msg of
        None \<Rightarrow> Inl (ValidationError ''id: Input should be a valid integer'')
      | Some i \<Rightarrow> Inr \<lparr>dto_id = i, dto_role = role msg, dto_message = message msg,
                       dto_timestamp = timestamp msg\<rparr>)"

text \<open>
  \<open>ChatService.process_message\<close>. The collaborators are parameters: \<open>ai_service\<close> is the
  \<open>generate_response\<close> of the injected service, \<open>products\<close> is what
  \<open>product_repository.get_all()\<close> returned, \<open>now_user\<close> and \<open>now_assistant\<close> are the
  values of the two calls of \<open>datetime.now(timezone.utc)\<close>, in program order, and
  \<open>pick_user\<close> and \<open>pick_assistant\<close> are the random keys of the two inserts (see
  \<open>new_rowid\<close>). The result is the returned DTO or the raised exception, with the table
  as the call left it.
\<close>

definition process_message ::
  "(string \<Rightarrow> 'p list \<Rightarrow> ChatContext \<Rightarrow> error + string) \<Rightarrow> 'p list \<Rightarrow> int \<Rightarrow> int \<Rightarrow>
   int option \<Rightarrow> int option \<Rightarrow>
   chat_memory \<Rightarrow> ChatMessageRequestDTO \<Rightarrow> (error + ChatMessageResponseDTO) \<times> chat_memory" where
  "process_message ai_service products now_user now_assistant pick_user pick_assistant
     db request =
     (let failed = (\<lambda>e. Inl (raise_ChatServiceError (err_str e))) in
      case SQLChatRepository_get_recent_messages db (req_session_id request) 6 of
        Inl e \<Rightarrow> (failed e, db)
      | Inr recent_history \<Rightarrow>
     (let context = \<lparr>messages = recent_history, max_messages = 6\<rparr> in
      case ai_service (req_message request) products context of
        Inl e \<Rightarrow> (failed e, db)
      | Inr ai_response \<Rightarrow>
     (case ChatMessage_init None (req_session_id request) ''user'' (req_message request)
             now_user of
        Inl e \<Rightarrow> (failed e, db)
      | Inr user_msg \<Rightarrow>
     (case save_message pick_user db user_msg of
        (Inl e, db1) \<Rightarrow> (failed e, db1)
      | (Inr saved_user, db1) \<Rightarrow>
     (case ChatMessage_init None (req_session_id request) ''assistant'' ai_response
             now_assistant of
        Inl e \<Rightarrow> (failed e, db1)
      | Inr assistant_msg \<Rightarrow>
     (case save_message pick_assistant db1 assistant_msg of
        (Inl e, db2) \<Rightarrow> (failed e, db2)
      | (Inr saved_assistant, db2) \<Rightarrow>
          (Inr \<lparr>resp_session_id = req_session_id request,
                 resp_user_message = req_message request,
                 resp_assistant_message = ai_response,
                 resp_timestamp = timestamp assistant_msg\<rparr>, db2)))))))"

text \<open>\<open>ChatService.get_session_history\<close>\<close>

definition ChatService_get_session_history ::
  "chat_memory \<Rightarrow> string \<Rightarrow> int option \<Rightarrow> error + ChatHistoryDTO list" where
  "ChatService_get_session_history db sid limit =
     (case (case SQLChatRepository_get_session_history db sid limit of
              Inl e \<Rightarrow> Inl e
            | Inr history \<Rightarrow> map_result model_validate history) of
        Inl e \<Rightarrow> Inl (raise_ChatServiceError (''Error al obtener historial: '' @ err_str e))
      | Inr dtos \<Rightarrow> Inr dtos)"

text \<open>\<open>ChatService.clear_session_history\<close>\<close>

definition ChatService_clear_session_history ::
  "chat_memory \<Rightarrow> string \<Rightarrow> (error + int) \<times> chat_memory" where
  "ChatService_clear_session_history db sid =
     (case delete_session_history db sid of (deleted, db') \<Rightarrow> (Inr deleted, db'))"

section \<open>Notions used to state the properties\<close>

text \<open>A text is empty or made of whitespace only.\<close>

definition empty_or_whitespace :: "string \<Rightarrow> bool" where
  "empty_or_whitespace s = (s = [] \<or> list_all isspace s)"

text \<open>A turn of session \<open>s1\<close>, for the concrete instances below.\<close>

definition turn :: "string \<Rightarrow> string \<Rightarrow> int \<Rightarrow> ChatMessage" where
  "turn r txt ts =
     \<lparr>id_field = None, session_id = ''s1'', role = r, message = txt, timestamp = ts\<rparr>"

text \<open>A turn whose text has two lines.\<close>

definition two_line_turn :: ChatMessage where
  "two_line_turn = turn ''user'' (''a'' @ [newline] @ ''b'') 10"

text \<open>A row of the table, for the concrete instances below.\<close>

definition row :: "int \<Rightarrow> string \<Rightarrow> string \<Rightarrow> string \<Rightarrow> int \<Rightarrow> ChatMemoryModel" where
  "row i sid r txt ts =
     \<lparr>row_id = i, row_session_id = sid, row_role = r, row_message = txt, row_timestamp = ts\<rparr>"

text \<open>
  A stored row satisfies the invariant of a turn, so that it loads as a \<open>ChatMessage\<close>;
  the entity and the history DTO that a row is turned into.
\<close>

definition valid_row :: "ChatMemoryModel \<Rightarrow> bool" where
  "valid_row m =
     (\<not> empty_or_whitespace (row_session_id m) \<and> \<not> empty_or_whitespace (row_message m)
      \<and> (row_role m = ''user'' \<or> row_role m = ''assistant''))"

definition row_entity :: "ChatMemoryModel \<Rightarrow> ChatMessage" where
  "row_entity m =
     \<lparr>id_field = Some (row_id m), session_id = row_session_id m, role = row_role m,
      message = row_message m, timestamp = row_timestamp m\<rparr>"

definition row_dto :: "ChatMemoryModel \<Rightarrow> ChatHistoryDTO" where
  "row_dto m =
     \<lparr>dto_id = row_id m, dto_role = row_role m, dto_message = row_message m,
      dto_timestamp = row_timestamp m\<rparr>"

text \<open>
  The rows that \<open>process_message\<close> inserts for the user turn and for the assistant turn,
  under the key \<open>k\<close>.
\<close>

definition user_row :: "int \<Rightarrow> ChatMessageRequestDTO \<Rightarrow> int \<Rightarrow> ChatMemoryModel" where
  "user_row k request ts =
     \<lparr>row_id = k, row_session_id = req_session_id request, row_role = ''user'',
      row_message = req_message request, row_timestamp = ts\<rparr>"

definition assistant_row ::
  "int \<Rightarrow> ChatMessageRequestDTO \<Rightarrow> string \<Rightarrow> int \<Rightarrow> ChatMemoryModel" where
  "assistant_row k request txt ts =
     \<lparr>row_id = k, row_session_id = req_session_id request, row_role = ''assistant'',
      row_message = txt, row_timestamp = ts\<rparr>"

text \<open>
  A table of three rows over two sessions, a request, and the Gemini adapter as
  \<open>process_message\<close> calls it (with a context object, over a catalogue of unit products).
\<close>

definition db3 :: chat_memory where
  "db3 = [row 1 ''s1'' ''user'' ''a'' 10, row 2 ''s2'' ''user'' ''b'' 20,
          row 3 ''s1'' ''assistant'' ''c'' 30]"

definition req1 :: ChatMessageRequestDTO where
  "req1 = \<lparr>req_session_id = ''s1'', req_message = ''Busco Nike''\<rparr>"

definition gemini_service ::
  "(string \<Rightarrow> error + api_response) \<Rightarrow> string \<Rightarrow> unit list \<Rightarrow> ChatContext \<Rightarrow> error + string" where
  "gemini_service model user_message products context =
     generate_response model (\<lambda>p. []) user_message products (Some context)"

section \<open>Facts about the string and slice operations\<close>

lemma dropWhile_all_iff: "(\<forall>x\<in>set (dropWhile P xs). P x) \<longleftrightarrow> dropWhile P xs = []"
proof
  assume a: "\<forall>x\<in>set (dropWhile P xs). P x"
  show "dropWhile P xs = []"
  proof (rule ccontr)
    assume n: "dropWhile P xs \<noteq> []"
    then have "\<not> P (hd (dropWhile P xs))" by (rule hd_dropWhile)
    moreover have "hd (dropWhile P xs) \<in> set (dropWhile P xs)" using n by simp
    ultimately show False using a by blast
  qed
qed (auto dest: set_dropWhileD)

lemma strip_empty_iff: "strip s = [] \<longleftrightarrow> (\<forall>c\<in>set s. isspace c)"
proof -
  have "strip s = [] \<longleftrightarrow> (\<forall>x\<in>set (dropWhile isspace s). isspace x)"
    by (simp add: strip_def lstrip_def rstrip_def dropWhile_eq_Nil_conv)
  also have "\<dots> \<longleftrightarrow> dropWhile isspace s = []" by (rule dropWhile_all_iff)
  also have "\<dots> \<longleftrightarrow> (\<forall>c\<in>set s. isspace c)" by (simp add: dropWhile_eq_Nil_conv)
  finally show ?thesis .
qed

lemma lstrip_decomp: "s = takeWhile isspace s @ lstrip s"
  by (simp add: lstrip_def)

lemma rstrip_decomp: "s = rstrip s @ rev (takeWhile isspace (rev s))"
proof -
  have "rev s = takeWhile isspace (rev s) @ dropWhile isspace (rev s)" by simp
  then have "rev (rev s) = rev (takeWhile isspace (rev s) @ dropWhile isspace (rev s))" by simp
  then show ?thesis unfolding rstrip_def by (simp del: takeWhile_dropWhile_id)
qed

lemma strip_decomp:
  "\<exists>l r. s = l @ strip s @ r \<and> (\<forall>c\<in>set l. isspace c) \<and> (\<forall>c\<in>set r. isspace c)"
proof -
  let ?l = "takeWhile isspace s"
  let ?r = "rev (takeWhile isspace (rev (lstrip s)))"
  have "s = ?l @ lstrip s" by (rule lstrip_decomp)
  also have "lstrip s = strip s @ ?r" unfolding strip_def by (rule rstrip_decomp)
  finally have "s = ?l @ strip s @ ?r" .
  moreover have "\<forall>c\<in>set ?l. isspace c" by (auto dest: set_takeWhileD)
  moreover have "\<forall>c\<in>set ?r. isspace c" by (auto dest: set_takeWhileD)
  ultimately show ?thesis by blast
qed

lemma strip_last:
  assumes "strip s \<noteq> []"
  shows "\<not> isspace (last (strip s))"
proof -
  let ?d = "dropWhile isspace (rev (lstrip s))"
  have d: "?d \<noteq> []" using assms by (simp add: strip_def rstrip_def)
  have "last (strip s) = hd ?d" using d by (simp add: strip_def rstrip_def last_rev)
  then show ?thesis using hd_dropWhile [OF d] by simp
qed

lemma strip_hd:
  assumes "strip s \<noteq> []"
  shows "\<not> isspace (hd (strip s))"
proof -
  have l: "lstrip s = strip s @ rev (takeWhile isspace (rev (lstrip s)))"
    unfolding strip_def by (rule rstrip_decomp)
  then have n: "lstrip s \<noteq> []" using assms by auto
  have "hd (lstrip s) = hd (strip s)" using l assms by (metis hd_append2)
  moreover have "\<not> isspace (hd (lstrip s))" using n unfolding lstrip_def by (rule hd_dropWhile)
  ultimately show ?thesis by simp
qed

lemma py_slice_from_neg:
  "1 \<le> n \<Longrightarrow> py_slice_from xs (- n) = drop (length xs - nat n) xs"
  by (auto simp: py_slice_from_def Let_def max_def nat_diff_distrib')

lemma blank_iff: "(s = [] \<or> strip s = []) \<longleftrightarrow> empty_or_whitespace s"
  by (auto simp: empty_or_whitespace_def strip_empty_iff list_all_iff)

section \<open>Chat turns: validation at construction\<close>

text \<open>
  Claim C5. Building a \<open>ChatMessage\<close> raises \<open>ValueError\<close> exactly when the session
  identifier is empty or whitespace only, or the text is empty or whitespace only, or the
  role is neither \<open>user\<close> nor \<open>assistant\<close>; otherwise it succeeds and the fields of the
  turn are the arguments given.
\<close>

theorem ChatMessage_init_validation:
  "((\<exists>e. ChatMessage_init i sid r msg ts = Inl (ValueError e)) \<longleftrightarrow>
      (empty_or_whitespace sid \<or> empty_or_whitespace msg \<or> (r \<noteq> ''user'' \<and> r \<noteq> ''assistant'')))
   \<and> (\<not> (empty_or_whitespace sid \<or> empty_or_whitespace msg \<or> (r \<noteq> ''user'' \<and> r \<noteq> ''assistant'')) \<longrightarrow>
        ChatMessage_init i sid r msg ts =
          Inr \<lparr>id_field = i, session_id = sid, role = r, message = msg, timestamp = ts\<rparr>)"
  unfolding ChatMessage_init_def blank_iff by auto

theorem ChatMessage_init_validation_witness:
  "\<not> (empty_or_whitespace ''s1'' \<or> empty_or_whitespace ''Hola'' \<or> (''user'' \<noteq> ''user'' \<and> ''user'' \<noteq> ''assistant''))
   \<and> ChatMessage_init None ''s1'' ''user'' ''Hola'' 7 =
          Inr \<lparr>id_field = None, session_id = ''s1'', role = ''user'', message = ''Hola'', timestamp = 7\<rparr>
   \<and> (\<exists>e. ChatMessage_init None ''s1'' ''user'' ''   '' 7 = Inl (ValueError e))"
  using ChatMessage_init_validation [of None "''s1''" "''user''" "''Hola''" 7]
        ChatMessage_init_validation [of None "''s1''" "''user''" "''   ''" 7]
  by (simp add: empty_or_whitespace_def isspace_def)

section \<open>The recent window of a context\<close>

lemma get_recent_messages_eq:
  "get_recent_messages ctx = sort_key timestamp (py_slice_from (messages ctx) (- max_messages ctx))"
  by (cases "py_slice_from (messages ctx) (- max_messages ctx)") (simp_all add: get_recent_messages_def Let_def)

lemma get_recent_messages_pos:
  "1 \<le> max_messages ctx \<Longrightarrow>
   get_recent_messages ctx =
     sort_key timestamp (drop (length (messages ctx) - nat (max_messages ctx)) (messages ctx))"
  by (simp add: get_recent_messages_eq py_slice_from_neg)

lemma sorted_get_recent_messages: "sorted (map timestamp (get_recent_messages ctx))"
  by (simp add: get_recent_messages_eq)

lemma length_get_recent_messages:
  "1 \<le> max_messages ctx \<Longrightarrow>
   length (get_recent_messages ctx) = min (nat (max_messages ctx)) (length (messages ctx))"
  by (auto simp: get_recent_messages_pos)

text \<open>
  Claim C3. The claim gives the recent window the length \<open>min (len T) n\<close> for \<open>n \<ge> 0\<close>
  and the length 0 for \<open>n \<le> 0\<close>. At \<open>max_messages = 0\<close> the slice
  \<open>self.messages[-0:]\<close> is the whole list, so both turns of a two-turn context come
  back (sorted); at \<open>max_messages = -1\<close> the slice drops the first turn only, so two of
  three turns come back.
\<close>

theorem get_recent_messages_nonpositive_bound:
  "get_recent_messages
     \<lparr>messages = [turn ''user'' ''a'' 30, turn ''assistant'' ''b'' 10], max_messages = 0\<rparr>
     = [turn ''assistant'' ''b'' 10, turn ''user'' ''a'' 30]
   \<and> length (get_recent_messages
        \<lparr>messages = [turn ''user'' ''a'' 30, turn ''assistant'' ''b'' 10, turn ''user'' ''c'' 20],
         max_messages = - 1\<rparr>) = 2"
  by (simp add: get_recent_messages_def py_slice_from_def turn_def)

text \<open>
  Claim C4. For a bound \<open>n \<ge> 1\<close> the window is the trailing \<open>min n (len T)\<close> turns of
  the input, by position, sorted by timestamp: it is a permutation of that slice, it is
  ascending in the timestamps, turns of equal timestamp keep the order they have in the
  slice, and the empty input gives the empty window.
\<close>

theorem get_recent_messages_window:
  assumes "1 \<le> n"
  shows "(\<exists>older recent.
            T = older @ recent \<and> length recent = min (nat n) (length T) \<and>
            get_recent_messages \<lparr>messages = T, max_messages = n\<rparr> = sort_key timestamp recent \<and>
            mset (get_recent_messages \<lparr>messages = T, max_messages = n\<rparr>) = mset recent \<and>
            (\<forall>k. filter (\<lambda>m. timestamp m = k) (get_recent_messages \<lparr>messages = T, max_messages = n\<rparr>)
                  = filter (\<lambda>m. timestamp m = k) recent))
         \<and> sorted (map timestamp (get_recent_messages \<lparr>messages = T, max_messages = n\<rparr>))
         \<and> get_recent_messages \<lparr>messages = [], max_messages = n\<rparr> = []"
proof -
  let ?older = "take (length T - nat n) T"
  let ?recent = "drop (length T - nat n) T"
  have r: "get_recent_messages \<lparr>messages = T, max_messages = n\<rparr> = sort_key timestamp ?recent"
    using assms by (simp add: get_recent_messages_pos)
  have "T = ?older @ ?recent" by simp
  moreover have "length ?recent = min (nat n) (length T)" by auto
  moreover have "mset (sort_key timestamp ?recent) = mset ?recent" by simp
  moreover have "\<forall>k. filter (\<lambda>m. timestamp m = k) (sort_key timestamp ?recent)
                    = filter (\<lambda>m. timestamp m = k) ?recent"
    by (simp add: sort_key_stable)
  ultimately have "\<exists>older recent.
            T = older @ recent \<and> length recent = min (nat n) (length T) \<and>
            get_recent_messages \<lparr>messages = T, max_messages = n\<rparr> = sort_key timestamp recent \<and>
            mset (get_recent_messages \<lparr>messages = T, max_messages = n\<rparr>) = mset recent \<and>
            (\<forall>k. filter (\<lambda>m. timestamp m = k) (get_recent_messages \<lparr>messages = T, max_messages = n\<rparr>)
                  = filter (\<lambda>m. timestamp m = k) recent)"
    unfolding r by blast
  moreover have "get_recent_messages \<lparr>messages = [], max_messages = n\<rparr> = []"
    by (simp add: get_recent_messages_eq py_slice_from_def)
  ultimately show ?thesis by (simp add: sorted_get_recent_messages)
qed

theorem get_recent_messages_window_witness:
  "1 \<le> (2::int)
   \<and> get_recent_messages
        \<lparr>messages = [turn ''user'' ''a'' 30, turn ''assistant'' ''b'' 10, turn ''user'' ''c'' 20],
         max_messages = 2\<rparr>
       = [turn ''assistant'' ''b'' 10, turn ''user'' ''c'' 20]
   \<and> sorted (map timestamp (get_recent_messages
        \<lparr>messages = [turn ''user'' ''a'' 30, turn ''assistant'' ''b'' 10, turn ''user'' ''c'' 20],
         max_messages = 2\<rparr>))"
proof -
  have h: "1 \<le> (2::int)" by simp
  show ?thesis
    using h get_recent_messages_window
              [OF h, of "[turn ''user'' ''a'' 30, turn ''assistant'' ''b'' 10, turn ''user'' ''c'' 20]"]
    by (simp add: get_recent_messages_def py_slice_from_def turn_def)
qed

section \<open>The rendered transcript\<close>

lemma split_chr_no_sep: "sep \<notin> set x \<Longrightarrow> split_chr sep x = [x]"
  by (induction x) auto

lemma split_chr_append: "sep \<notin> set x \<Longrightarrow> split_chr sep (x @ sep # rest) = x # split_chr sep rest"
  by (induction x) auto

lemma split_chr_join:
  "xs \<noteq> [] \<Longrightarrow> \<forall>x\<in>set xs. sep \<notin> set x \<Longrightarrow> split_chr sep (join [sep] xs) = xs"
proof (induction "[sep]" xs rule: join.induct)
  case 1
  then show ?case by simp
next
  case (2 x)
  then show ?case by (simp add: split_chr_no_sep)
next
  case (3 x y ys)
  then show ?case by (simp add: split_chr_append)
qed

lemma render_line_no_newline: "newline \<notin> set (message m) \<Longrightarrow> newline \<notin> set (render_line m)"
  by (simp add: render_line_def newline_def)

lemma set_get_recent_messages: "set (get_recent_messages ctx) \<subseteq> set (messages ctx)"
  by (auto simp: get_recent_messages_eq py_slice_from_def Let_def dest: in_set_dropD)

lemma get_recent_messages_Nil_iff:
  "1 \<le> max_messages ctx \<Longrightarrow> get_recent_messages ctx = [] \<longleftrightarrow> messages ctx = []"
  using length_get_recent_messages [of ctx] by (cases "messages ctx") auto

text \<open>
  Claim C10, as stated, bounds the number of lines of the rendered transcript by
  \<open>max_messages\<close>. A turn whose text contains a newline is rendered on two lines, so a
  context of one such turn with \<open>max_messages = 1\<close> gives a transcript of two lines.
\<close>

theorem format_for_prompt_lines_counterexample:
  "\<not> length (split_chr newline (format_for_prompt \<lparr>messages = [two_line_turn], max_messages = 1\<rparr>)) \<le> 1"
  by (simp add: format_for_prompt_def get_recent_messages_def py_slice_from_def two_line_turn_def
        turn_def render_line_def is_from_user_def newline_def)

text \<open>
  Claim C10, amended. For a context with \<open>max_messages \<ge> 1\<close>, \<open>format_for_prompt\<close>
  renders the recent window of the context, one entry \<open>Label: text\<close> per turn, joined by
  newlines: there are \<open>min max_messages (len messages)\<close> entries, in ascending order of
  the timestamps whatever the order of the list given. When no text contains a newline
  the entries are the lines of the transcript, which has then at most \<open>max_messages\<close>
  lines.
\<close>

theorem format_for_prompt_window:
  assumes "1 \<le> max_messages ctx"
  shows "format_for_prompt ctx = join [newline] (map render_line (get_recent_messages ctx))
       \<and> length (get_recent_messages ctx) = min (nat (max_messages ctx)) (length (messages ctx))
       \<and> sorted (map timestamp (get_recent_messages ctx))
       \<and> (messages ctx = [] \<longrightarrow> format_for_prompt ctx = [])
       \<and> (messages ctx \<noteq> [] \<and> (\<forall>m\<in>set (messages ctx). newline \<notin> set (message m)) \<longrightarrow>
            split_chr newline (format_for_prompt ctx) = map render_line (get_recent_messages ctx)
            \<and> length (split_chr newline (format_for_prompt ctx)) \<le> nat (max_messages ctx))"
proof -
  let ?recent = "get_recent_messages ctx"
  have len: "length ?recent = min (nat (max_messages ctx)) (length (messages ctx))"
    using assms by (rule length_get_recent_messages)
  have empty: "messages ctx = [] \<longrightarrow> format_for_prompt ctx = []"
  proof
    assume "messages ctx = []"
    then have "?recent = []" using assms by (simp add: get_recent_messages_Nil_iff)
    then show "format_for_prompt ctx = []" by (simp add: format_for_prompt_def)
  qed
  have lines: "split_chr newline (format_for_prompt ctx) = map render_line ?recent"
    if ne: "messages ctx \<noteq> []" and nl: "\<forall>m\<in>set (messages ctx). newline \<notin> set (message m)"
  proof -
    have "map render_line ?recent \<noteq> []"
      using assms ne by (simp add: get_recent_messages_Nil_iff)
    moreover have "\<forall>x\<in>set (map render_line ?recent). newline \<notin> set x"
      using nl set_get_recent_messages [of ctx] render_line_no_newline by auto
    ultimately show ?thesis
      unfolding format_for_prompt_def by (rule split_chr_join)
  qed
  show ?thesis
    using len empty lines by (simp add: format_for_prompt_def sorted_get_recent_messages)
qed

theorem format_for_prompt_window_witness:
  "1 \<le> max_messages \<lparr>messages = [turn ''user'' ''a'' 30, turn ''assistant'' ''b'' 10, turn ''user'' ''c'' 20], max_messages = 2\<rparr>
   \<and> format_for_prompt \<lparr>messages = [turn ''user'' ''a'' 30, turn ''assistant'' ''b'' 10, turn ''user'' ''c'' 20], max_messages = 2\<rparr>
       = ''Asistente: b'' @ [newline] @ ''Usuario: c''
   \<and> split_chr newline (format_for_prompt \<lparr>messages = [turn ''user'' ''a'' 30, turn ''assistant'' ''b'' 10, turn ''user'' ''c'' 20], max_messages = 2\<rparr>)
       = [''Asistente: b'', ''Usuario: c'']"
  using format_for_prompt_window [of "\<lparr>messages = [turn ''user'' ''a'' 30, turn ''assistant'' ''b'' 10, turn ''user'' ''c'' 20], max_messages = 2\<rparr>"]
  by (simp add: format_for_prompt_def get_recent_messages_def py_slice_from_def
        turn_def render_line_def is_from_user_def newline_def)

section \<open>The prompt of the generation adapter\<close>

text \<open>
  Claim C6. The claim puts the marker for "no prior messages" in the prompt whenever the
  transcript is empty. \<open>generate_response\<close> tests the context object, not its text: for
  the context of a session without turns (the one \<open>process_message\<close> builds) the
  transcript is the empty string and the section of the prompt is left empty; the marker
  appears for the context \<open>None\<close> only.
\<close>

theorem gemini_prompt_empty_context:
  "gemini_prompt (\<lambda>p::unit. []) ''Hola'' [] (Some \<lparr>messages = [], max_messages = 6\<rparr>)
     = build_prompt ''No hay productos disponibles en este momento.'' [] ''Hola''
   \<and> gemini_prompt (\<lambda>p::unit. []) ''Hola'' [] (Some \<lparr>messages = [], max_messages = 6\<rparr>)
     \<noteq> build_prompt ''No hay productos disponibles en este momento.'' no_context_marker ''Hola''"
  by (simp add: gemini_prompt_def format_products_info_def format_for_prompt_def
        get_recent_messages_def py_slice_from_def build_prompt_def no_context_marker_def)

section \<open>Clearing a session\<close>

lemma session_rows_delete:
  "session_rows (snd (delete_session_history db sid)) sid = []"
  by (auto simp: delete_session_history_def session_rows_def Let_def filter_empty_conv)

lemma delete_session_history_distinct:
  "distinct (map row_id db) \<Longrightarrow>
   snd (delete_session_history db sid) = filter (\<lambda>m. row_session_id m \<noteq> sid) db"
proof -
  assume d: "distinct (map row_id db)"
  then have inj: "inj_on row_id (set db)" by (simp add: distinct_map)
  have "(row_id m \<notin> set (map row_id (session_rows db sid))) = (row_session_id m \<noteq> sid)"
    if m: "m \<in> set db" for m
  proof
    assume "row_id m \<notin> set (map row_id (session_rows db sid))"
    then show "row_session_id m \<noteq> sid" using m by (auto simp: session_rows_def)
  next
    assume n: "row_session_id m \<noteq> sid"
    show "row_id m \<notin> set (map row_id (session_rows db sid))"
    proof
      assume "row_id m \<in> set (map row_id (session_rows db sid))"
      then obtain m' where m': "m' \<in> set db" "row_session_id m' = sid" "row_id m' = row_id m"
        by (auto simp: session_rows_def)
      then have "m' = m" using inj m by (auto dest: inj_onD)
      then show False using m' n by simp
    qed
  qed
  then show ?thesis
    by (simp add: delete_session_history_def Let_def cong: filter_cong)
qed

text \<open>
  Claim C9. \<open>clear_session_history\<close> returns the number of rows of the session and leaves
  the session without rows (its history is then empty); called again on the table it left,
  it returns 0, raises nothing and changes nothing. With unique row identifiers the rows
  removed are exactly those of the session, so the number returned is the number deleted.
\<close>

theorem clear_session_history_idempotent:
  "(\<exists>db'. ChatService_clear_session_history db sid
            = (Inr (int (length (session_rows db sid))), db')
         \<and> session_rows db' sid = []
         \<and> SQLChatRepository_get_session_history db' sid None = Inr []
         \<and> ChatService_clear_session_history db' sid = (Inr 0, db')
         \<and> (distinct (map row_id db) \<longrightarrow>
               db' = filter (\<lambda>m. row_session_id m \<noteq> sid) db
               \<and> int (length db) = int (length db') + int (length (session_rows db sid))))"
proof -
  let ?db' = "snd (delete_session_history db sid)"
  have e: "session_rows ?db' sid = []" by (rule session_rows_delete)
  have 1: "ChatService_clear_session_history db sid = (Inr (int (length (session_rows db sid))), ?db')"
    by (simp add: ChatService_clear_session_history_def delete_session_history_def Let_def)
  have 2: "SQLChatRepository_get_session_history ?db' sid None = Inr []"
    by (simp add: SQLChatRepository_get_session_history_def e order_by_desc_timestamp_def)
  have 3: "ChatService_clear_session_history ?db' sid = (Inr 0, ?db')"
    using e by (simp add: ChatService_clear_session_history_def delete_session_history_def Let_def)
  have 4: "?db' = filter (\<lambda>m. row_session_id m \<noteq> sid) db
           \<and> int (length db) = int (length ?db') + int (length (session_rows db sid))"
    if "distinct (map row_id db)"
  proof -
    have a: "?db' = filter (\<lambda>m. row_session_id m \<noteq> sid) db"
      using that by (rule delete_session_history_distinct)
    have "length db = length (filter (\<lambda>m. row_session_id m \<noteq> sid) db) + length (session_rows db sid)"
      unfolding session_rows_def using sum_length_filter_compl [of "\<lambda>m. row_session_id m = sid" db] by simp
    then show ?thesis using a by simp
  qed
  show ?thesis using e 1 2 3 4 by blast
qed

theorem clear_session_history_idempotent_witness:
  "distinct (map row_id [row 1 ''s1'' ''user'' ''a'' 10, row 2 ''s2'' ''user'' ''b'' 20, row 3 ''s1'' ''assistant'' ''c'' 30])
   \<and> ChatService_clear_session_history
        [row 1 ''s1'' ''user'' ''a'' 10, row 2 ''s2'' ''user'' ''b'' 20, row 3 ''s1'' ''assistant'' ''c'' 30] ''s1''
       = (Inr 2, [row 2 ''s2'' ''user'' ''b'' 20])
   \<and> ChatService_clear_session_history [row 2 ''s2'' ''user'' ''b'' 20] ''s1''
       = (Inr 0, [row 2 ''s2'' ''user'' ''b'' 20])"
  using clear_session_history_idempotent
          [of "[row 1 ''s1'' ''user'' ''a'' 10, row 2 ''s2'' ''user'' ''b'' 20, row 3 ''s1'' ''assistant'' ''c'' 30]" "''s1''"]
  by (simp add: ChatService_clear_session_history_def delete_session_history_def session_rows_def row_def)

section \<open>Loading and saving rows\<close>

lemma ChatMessage_init_Inr_iff:
  "ChatMessage_init i sid r msg ts = Inr x \<longleftrightarrow>
     (\<not> empty_or_whitespace sid \<and> \<not> empty_or_whitespace msg \<and> (r = ''user'' \<or> r = ''assistant'')
      \<and> x = \<lparr>id_field = i, session_id = sid, role = r, message = msg, timestamp = ts\<rparr>)"
  unfolding ChatMessage_init_def blank_iff by auto

lemma ChatMessage_init_blank_message:
  "\<not> empty_or_whitespace sid \<Longrightarrow> empty_or_whitespace msg \<Longrightarrow>
   ChatMessage_init i sid r msg ts
     = Inl (ValueError (''message no puede estar vac'' @ [i_acute] @ ''o''))"
  unfolding ChatMessage_init_def blank_iff by simp

lemma model_to_entity_valid: "valid_row m \<Longrightarrow> model_to_entity m = Inr (row_entity m)"
  by (simp add: model_to_entity_def ChatMessage_init_Inr_iff valid_row_def row_entity_def)

lemma map_result_model_to_entity:
  "list_all valid_row rows \<Longrightarrow> map_result model_to_entity rows = Inr (map row_entity rows)"
  by (induction rows) (simp_all add: model_to_entity_valid)

lemma map_result_model_validate:
  "map_result model_validate (map row_entity rows) = Inr (map row_dto rows)"
  by (induction rows) (simp_all add: model_validate_def row_entity_def row_dto_def)

lemma fold_max_ge: "(i::int) \<le> fold max js i \<and> (\<forall>x\<in>set js. x \<le> fold max js i)"
proof (induction js arbitrary: i)
  case Nil
  then show ?case by simp
next
  case (Cons j js)
  have a: "max j i \<le> fold max js (max j i)" and b: "\<forall>x\<in>set js. x \<le> fold max js (max j i)"
    using Cons.IH [of "max j i"] by simp_all
  show ?case using a b by auto
qed

lemma new_rowid_fresh:
  assumes "new_rowid pick db = Inr k"
  shows "k \<notin> set (map row_id db)"
proof (cases "map row_id db")
  case Nil
  then show ?thesis by simp
next
  case (Cons i js)
  show ?thesis
  proof (cases "fold max js i < max_rowid")
    case True
    then have k: "k = fold max js i + 1" using assms Cons by (simp add: new_rowid_def)
    have "\<forall>x\<in>set (i # js). x \<le> fold max js i" using fold_max_ge [of i js] by simp
    then have "\<forall>x\<in>set (i # js). x \<noteq> k" using k by auto
    then show ?thesis using Cons by auto
  next
    case False
    then show ?thesis
      using assms Cons by (auto simp: new_rowid_def split: option.splits if_splits)
  qed
qed

lemma new_rowid_increases:
  assumes "new_rowid pick db = Inr k" and "m \<in> set db" and "\<forall>x\<in>set db. row_id x < max_rowid"
  shows "row_id m < k"
proof -
  obtain i js where c: "map row_id db = i # js" using assms(2) by (cases "map row_id db") auto
  have mem: "fold max js i \<in> set (i # js)"
  proof (induction js arbitrary: i)
    case Nil
    then show ?case by simp
  next
    case (Cons j js)
    then show ?case using Cons.IH [of "max j i"] by (auto simp: max_def split: if_splits)
  qed
  then have "fold max js i \<in> row_id ` set db" using c by (metis list.set_map)
  then have lt: "fold max js i < max_rowid" using assms(3) by auto
  then have k: "k = fold max js i + 1" using assms(1) c by (simp add: new_rowid_def)
  have "row_id m \<in> set (i # js)" using assms(2) c by (metis imageI list.set_map)
  then have "row_id m \<le> fold max js i" using fold_max_ge [of i js] by auto
  then show ?thesis using k by simp
qed

lemma save_message_new:
  "id_field msg = None \<Longrightarrow> new_rowid pick db = Inr k \<Longrightarrow>
   save_message pick db msg =
     (model_to_entity \<lparr>row_id = k, row_session_id = session_id msg, row_role = role msg,
                       row_message = message msg, row_timestamp = timestamp msg\<rparr>,
      db @ [\<lparr>row_id = k, row_session_id = session_id msg, row_role = role msg,
              row_message = message msg, row_timestamp = timestamp msg\<rparr>])"
  by (simp add: save_message_def Let_def)

lemma save_message_no_key:
  "id_field msg = None \<Longrightarrow> new_rowid pick db = Inl e \<Longrightarrow>
   save_message pick db msg = (Inl e, db)"
  by (simp add: save_message_def)

lemma raise_ChatServiceError_is: "\<exists>m. raise_ChatServiceError s = ChatServiceError m"
  by (simp add: raise_ChatServiceError_def)

lemma get_recent_messages_valid:
  assumes "list_all valid_row (session_rows db sid)"
  shows "SQLChatRepository_get_recent_messages db sid n
           = Inr (map row_entity (rev (sql_limit n (order_by_desc_timestamp (session_rows db sid)))))"
proof -
  have "set (sql_limit n (order_by_desc_timestamp (session_rows db sid))) \<subseteq> set (session_rows db sid)"
    by (auto simp: sql_limit_def order_by_desc_timestamp_def dest: in_set_takeD)
  then have "list_all valid_row (rev (sql_limit n (order_by_desc_timestamp (session_rows db sid))))"
    using assms by (auto simp: list_all_iff)
  then show ?thesis
    by (simp add: SQLChatRepository_get_recent_messages_def Let_def map_result_model_to_entity)
qed

lemma process_message_ok:
  assumes hist: "SQLChatRepository_get_recent_messages db (req_session_id request) 6 = Inr history"
    and ai: "ai_service (req_message request) products \<lparr>messages = history, max_messages = 6\<rparr>
               = Inr ai_response"
    and sid: "\<not> empty_or_whitespace (req_session_id request)"
    and msg: "\<not> empty_or_whitespace (req_message request)"
    and resp_ok: "\<not> empty_or_whitespace ai_response"
    and ku: "new_rowid pick_user db = Inr ku"
    and ka: "new_rowid pick_assistant (db @ [user_row ku request now_user]) = Inr ka"
  shows "process_message ai_service products now_user now_assistant pick_user pick_assistant
           db request =
           (Inr \<lparr>resp_session_id = req_session_id request,
                  resp_user_message = req_message request,
                  resp_assistant_message = ai_response,
                  resp_timestamp = now_assistant\<rparr>,
            db @ [user_row ku request now_user,
                  assistant_row ka request ai_response now_assistant])"
proof -
  let ?u = "user_row ku request now_user"
  let ?a = "assistant_row ka request ai_response now_assistant"
  have u: "ChatMessage_init None (req_session_id request) ''user'' (req_message request) now_user
             = Inr \<lparr>id_field = None, session_id = req_session_id request, role = ''user'',
                    message = req_message request, timestamp = now_user\<rparr>"
    using sid msg by (simp add: ChatMessage_init_Inr_iff)
  have a: "ChatMessage_init None (req_session_id request) ''assistant'' ai_response now_assistant
             = Inr \<lparr>id_field = None, session_id = req_session_id request, role = ''assistant'',
                    message = ai_response, timestamp = now_assistant\<rparr>"
    using sid resp_ok by (simp add: ChatMessage_init_Inr_iff)
  have vu: "valid_row ?u" using sid msg by (simp add: valid_row_def user_row_def)
  have va: "valid_row ?a" using sid resp_ok by (simp add: valid_row_def assistant_row_def)
  have su: "save_message pick_user db
              \<lparr>id_field = None, session_id = req_session_id request, role = ''user'',
               message = req_message request, timestamp = now_user\<rparr>
              = (Inr (row_entity ?u), db @ [?u])"
    using model_to_entity_valid [OF vu] ku by (simp add: save_message_new user_row_def)
  have sa: "save_message pick_assistant (db @ [?u])
              \<lparr>id_field = None, session_id = req_session_id request,
               role = ''assistant'', message = ai_response, timestamp = now_assistant\<rparr>
              = (Inr (row_entity ?a), db @ [?u] @ [?a])"
    using model_to_entity_valid [OF va] ka by (simp add: save_message_new assistant_row_def)
  show ?thesis
    by (simp add: process_message_def hist ai u a su sa)
qed

section \<open>Processing a message\<close>

text \<open>
  Claim C1. When the history was read and the call of the generation service raises,
  \<open>process_message\<close> raises a \<open>ChatServiceError\<close> that carries the text of the cause, and
  the table is the one the call started with: neither turn was saved, and the history of
  the session reads as before.
\<close>

theorem process_message_generation_failure:
  assumes "SQLChatRepository_get_recent_messages db (req_session_id request) 6 = Inr history"
    and "ai_service (req_message request) products \<lparr>messages = history, max_messages = 6\<rparr> = Inl e"
  shows "process_message ai_service products now_user now_assistant pick_user pick_assistant
           db request
           = (Inl (raise_ChatServiceError (err_str e)), db)
       \<and> (\<exists>m. fst (process_message ai_service products now_user now_assistant pick_user
                      pick_assistant db request)
                 = Inl (ChatServiceError m))
       \<and> SQLChatRepository_get_session_history
            (snd (process_message ai_service products now_user now_assistant pick_user
                    pick_assistant db request))
            (req_session_id request) None
          = SQLChatRepository_get_session_history db (req_session_id request) None"
proof -
  have "process_message ai_service products now_user now_assistant pick_user pick_assistant
           db request
           = (Inl (raise_ChatServiceError (err_str e)), db)"
    using assms by (simp add: process_message_def)
  then show ?thesis using raise_ChatServiceError_is [of "err_str e"] by auto
qed

theorem process_message_generation_failure_witness:
  "SQLChatRepository_get_recent_messages db3 (req_session_id req1) 6
     = Inr [\<lparr>id_field = Some 1, session_id = ''s1'', role = ''user'', message = ''a'', timestamp = 10\<rparr>,
            \<lparr>id_field = Some 3, session_id = ''s1'', role = ''assistant'', message = ''c'', timestamp = 30\<rparr>]
   \<and> gemini_service (\<lambda>p. Inl (OtherError ''boom'')) (req_message req1) []
        \<lparr>messages =
           [\<lparr>id_field = Some 1, session_id = ''s1'', role = ''user'', message = ''a'', timestamp = 10\<rparr>,
            \<lparr>id_field = Some 3, session_id = ''s1'', role = ''assistant'', message = ''c'', timestamp = 30\<rparr>],
         max_messages = 6\<rparr>
       = Inl (ChatServiceError ''Error en el servicio de chat: Error al generar respuesta de Gemini: Error en el servicio de chat: Error en la API de Gemini: boom'')
   \<and> process_message (gemini_service (\<lambda>p. Inl (OtherError ''boom''))) [] 100 200 None None db3 req1
       = (Inl (ChatServiceError ''Error en el servicio de chat: Error en el servicio de chat: Error al generar respuesta de Gemini: Error en el servicio de chat: Error en la API de Gemini: boom''), db3)"
proof -
  have h1: "SQLChatRepository_get_recent_messages db3 (req_session_id req1) 6
     = Inr [\<lparr>id_field = Some 1, session_id = ''s1'', role = ''user'', message = ''a'', timestamp = 10\<rparr>,
            \<lparr>id_field = Some 3, session_id = ''s1'', role = ''assistant'', message = ''c'', timestamp = 30\<rparr>]"
    by (simp add: SQLChatRepository_get_recent_messages_def session_rows_def
        order_by_desc_timestamp_def sql_limit_def db3_def req1_def row_def
        model_to_entity_def ChatMessage_init_def strip_def lstrip_def rstrip_def isspace_def)
  have h2: "gemini_service (\<lambda>p. Inl (OtherError ''boom'')) (req_message req1) []
        \<lparr>messages =
           [\<lparr>id_field = Some 1, session_id = ''s1'', role = ''user'', message = ''a'', timestamp = 10\<rparr>,
            \<lparr>id_field = Some 3, session_id = ''s1'', role = ''assistant'', message = ''c'', timestamp = 30\<rparr>],
         max_messages = 6\<rparr>
       = Inl (ChatServiceError ''Error en el servicio de chat: Error al generar respuesta de Gemini: Error en el servicio de chat: Error en la API de Gemini: boom'')"
    by (simp add: gemini_service_def generate_response_def generate_text_def raise_ChatServiceError_def)
  show ?thesis
    using h1 h2
      process_message_generation_failure
        [where ai_service = "gemini_service (\<lambda>p. Inl (OtherError ''boom''))"
           and products = "[]" and now_user = 100 and now_assistant = 200
           and pick_user = None and pick_assistant = None, OF h1 h2]
    by (simp add: raise_ChatServiceError_def)
qed

text \<open>
  Claim C2, as stated, makes the timestamp of the assistant turn at least that of the
  user turn in every successful call. The two timestamps are two readings of the wall
  clock, which the code does not compare: when the second reading is the earlier one
  (the clock was set back in between), the call succeeds and the assistant turn carries
  the earlier timestamp.
\<close>

theorem process_message_clock_counterexample:
  "process_message (gemini_service (\<lambda>p. Inr (Response (Some ''Tenemos Pegasus'')))) []
     200 100 None None [] req1
     = (Inr \<lparr>resp_session_id = ''s1'', resp_user_message = ''Busco Nike'',
              resp_assistant_message = ''Tenemos Pegasus'', resp_timestamp = 100\<rparr>,
        [row 1 ''s1'' ''user'' ''Busco Nike'' 200, row 2 ''s1'' ''assistant'' ''Tenemos Pegasus'' 100])
   \<and> \<not> row_timestamp (row 1 ''s1'' ''user'' ''Busco Nike'' 200)
         \<le> row_timestamp (row 2 ''s1'' ''assistant'' ''Tenemos Pegasus'' 100)"
  by (simp add: process_message_def SQLChatRepository_get_recent_messages_def session_rows_def
        order_by_desc_timestamp_def sql_limit_def req1_def row_def
        model_to_entity_def ChatMessage_init_def strip_def lstrip_def rstrip_def isspace_def
        gemini_service_def generate_response_def generate_text_def
        save_message_def new_rowid_def max_rowid_def)

text \<open>
  Claim C2, amended. A call of \<open>process_message\<close> that returns has read the recent
  history, obtained the generated text, and appended two rows to the table, in this
  order: the user turn (role \<open>user\<close>, the text of the request, the first reading of the
  clock) and then the assistant turn (role \<open>assistant\<close>, the generated text, the second
  reading of the clock), each under a key that was not in use. The timestamp of the
  assistant turn is at least that of the user turn exactly when the second reading of
  the clock is not earlier than the first. The DTO returned holds the session
  identifier, the text of the request, the generated text and the timestamp of the
  assistant turn.
\<close>

theorem process_message_success:
  assumes ok: "process_message ai_service products now_user now_assistant pick_user
                 pick_assistant db request = (Inr resp, db')"
  shows "\<exists>history ai_response ku ka u a.
           SQLChatRepository_get_recent_messages db (req_session_id request) 6 = Inr history
         \<and> ai_service (req_message request) products \<lparr>messages = history, max_messages = 6\<rparr>
             = Inr ai_response
         \<and> new_rowid pick_user db = Inr ku
         \<and> u = \<lparr>row_id = ku, row_session_id = req_session_id request, row_role = ''user'',
                 row_message = req_message request, row_timestamp = now_user\<rparr>
         \<and> new_rowid pick_assistant (db @ [u]) = Inr ka
         \<and> a = \<lparr>row_id = ka, row_session_id = req_session_id request, row_role = ''assistant'',
                 row_message = ai_response, row_timestamp = now_assistant\<rparr>
         \<and> db' = db @ [u, a]
         \<and> ku \<notin> set (map row_id db) \<and> ka \<notin> set (map row_id (db @ [u]))
         \<and> (row_timestamp u \<le> row_timestamp a) = (now_user \<le> now_assistant)
         \<and> resp = \<lparr>resp_session_id = req_session_id request,
                     resp_user_message = req_message request,
                     resp_assistant_message = ai_response,
                     resp_timestamp = row_timestamp a\<rparr>"
proof -
  from ok obtain history where
    hist: "SQLChatRepository_get_recent_messages db (req_session_id request) 6 = Inr history"
    by (auto simp: process_message_def split: sum.splits)
  from ok hist obtain ai_response where
    ai: "ai_service (req_message request) products \<lparr>messages = history, max_messages = 6\<rparr>
           = Inr ai_response"
    by (auto simp: process_message_def split: sum.splits)
  from ok hist ai obtain user_msg where
    "ChatMessage_init None (req_session_id request) ''user'' (req_message request) now_user
       = Inr user_msg"
    by (auto simp: process_message_def split: sum.splits)
  then have sid: "\<not> empty_or_whitespace (req_session_id request)"
    and msg: "\<not> empty_or_whitespace (req_message request)"
    and u: "ChatMessage_init None (req_session_id request) ''user'' (req_message request) now_user
       = Inr \<lparr>id_field = None, session_id = req_session_id request, role = ''user'',
                    message = req_message request, timestamp = now_user\<rparr>"
    by (simp_all add: ChatMessage_init_Inr_iff)
  obtain ku where ku: "new_rowid pick_user db = Inr ku"
  proof (cases "new_rowid pick_user db")
    case (Inl e)
    then have "save_message pick_user db
                 \<lparr>id_field = None, session_id = req_session_id request, role = ''user'',
                  message = req_message request, timestamp = now_user\<rparr> = (Inl e, db)"
      by (simp add: save_message_no_key)
    then have False using ok hist ai u by (simp add: process_message_def)
    then show ?thesis ..
  next
    case (Inr k)
    then show ?thesis using that by blast
  qed
  let ?u = "user_row ku request now_user"
  have su: "snd (save_message pick_user db
                   \<lparr>id_field = None, session_id = req_session_id request, role = ''user'',
                    message = req_message request, timestamp = now_user\<rparr>) = db @ [?u]"
    using ku by (simp add: save_message_new user_row_def)
  from ok hist ai u su obtain assistant_msg where
    "ChatMessage_init None (req_session_id request) ''assistant'' ai_response now_assistant
       = Inr assistant_msg"
    by (auto simp: process_message_def split: sum.splits prod.splits)
  then have resp_ok: "\<not> empty_or_whitespace ai_response"
    and a: "ChatMessage_init None (req_session_id request) ''assistant'' ai_response now_assistant
       = Inr \<lparr>id_field = None, session_id = req_session_id request, role = ''assistant'',
                    message = ai_response, timestamp = now_assistant\<rparr>"
    by (simp_all add: ChatMessage_init_Inr_iff)
  have vu: "valid_row ?u" using sid msg by (simp add: valid_row_def user_row_def)
  have su': "save_message pick_user db
                   \<lparr>id_field = None, session_id = req_session_id request, role = ''user'',
                    message = req_message request, timestamp = now_user\<rparr>
               = (Inr (row_entity ?u), db @ [?u])"
    using model_to_entity_valid [OF vu] ku by (simp add: save_message_new user_row_def)
  obtain ka where ka: "new_rowid pick_assistant (db @ [?u]) = Inr ka"
  proof (cases "new_rowid pick_assistant (db @ [?u])")
    case (Inl e)
    then have "save_message pick_assistant (db @ [?u])
                 \<lparr>id_field = None, session_id = req_session_id request, role = ''assistant'',
                  message = ai_response, timestamp = now_assistant\<rparr> = (Inl e, db @ [?u])"
      by (simp add: save_message_no_key)
    then have False using ok hist ai u a su' by (simp add: process_message_def)
    then show ?thesis ..
  next
    case (Inr k)
    then show ?thesis using that by blast
  qed
  let ?a = "assistant_row ka request ai_response now_assistant"
  have "process_message ai_service products now_user now_assistant pick_user pick_assistant
          db request =
           (Inr \<lparr>resp_session_id = req_session_id request,
                  resp_user_message = req_message request,
                  resp_assistant_message = ai_response,
                  resp_timestamp = now_assistant\<rparr>, db @ [?u, ?a])"
    using hist ai sid msg resp_ok ku ka by (rule process_message_ok)
  with ok have r: "resp = \<lparr>resp_session_id = req_session_id request,
                  resp_user_message = req_message request,
                  resp_assistant_message = ai_response,
                  resp_timestamp = now_assistant\<rparr>" and d: "db' = db @ [?u, ?a]"
    by simp_all
  have fu: "ku \<notin> set (map row_id db)" using ku by (rule new_rowid_fresh)
  have fa: "ka \<notin> set (map row_id (db @ [?u]))" using ka by (rule new_rowid_fresh)
  show ?thesis
    using hist ai ku ka d fu fa r
    by (simp add: user_row_def assistant_row_def)
qed

theorem process_message_success_witness:
  "process_message (gemini_service (\<lambda>p. Inr (Response (Some ''  Tenemos Pegasus '')))) []
     100 200 None None [] req1
     = (Inr \<lparr>resp_session_id = ''s1'', resp_user_message = ''Busco Nike'',
              resp_assistant_message = ''Tenemos Pegasus'', resp_timestamp = 200\<rparr>,
        [row 1 ''s1'' ''user'' ''Busco Nike'' 100, row 2 ''s1'' ''assistant'' ''Tenemos Pegasus'' 200])
   \<and> new_rowid None [] = Inr 1
   \<and> new_rowid None ([] @ [row 1 ''s1'' ''user'' ''Busco Nike'' 100]) = Inr 2"
proof -
  have h: "process_message (gemini_service (\<lambda>p. Inr (Response (Some ''  Tenemos Pegasus '')))) []
     100 200 None None [] req1
     = (Inr \<lparr>resp_session_id = ''s1'', resp_user_message = ''Busco Nike'',
              resp_assistant_message = ''Tenemos Pegasus'', resp_timestamp = 200\<rparr>,
        [row 1 ''s1'' ''user'' ''Busco Nike'' 100, row 2 ''s1'' ''assistant'' ''Tenemos Pegasus'' 200])"
    by (simp add: process_message_def SQLChatRepository_get_recent_messages_def session_rows_def
        order_by_desc_timestamp_def sql_limit_def req1_def row_def
        model_to_entity_def ChatMessage_init_def strip_def lstrip_def rstrip_def isspace_def
        gemini_service_def generate_response_def generate_text_def
        save_message_def new_rowid_def max_rowid_def)
  show ?thesis
    using h process_message_success [OF h]
    by (simp add: new_rowid_def max_rowid_def row_def)
qed

section \<open>Replies of the generation backend\<close>

lemma strip_no_response_text: "strip no_response_text = no_response_text"
  by (simp add: strip_def lstrip_def rstrip_def no_response_text_def isspace_def)

lemma no_response_text_not_blank: "\<not> empty_or_whitespace no_response_text"
  by (simp add: empty_or_whitespace_def no_response_text_def isspace_def)

text \<open>
  A reply with a text that is not empty: \<open>generate_response\<close> returns that text without
  its leading and trailing whitespace.
\<close>

lemma generate_response_reply:
  assumes "model (gemini_prompt product_line u ps c) = Inr (Response (Some t))" and "t \<noteq> []"
  shows "generate_response model product_line u ps c = Inr (strip t)
       \<and> (\<exists>l r. t = l @ strip t @ r \<and> list_all isspace l \<and> list_all isspace r)
       \<and> (strip t \<noteq> [] \<longrightarrow> \<not> isspace (hd (strip t)) \<and> \<not> isspace (last (strip t)))"
proof -
  have "generate_response model product_line u ps c = Inr (strip t)"
    using assms by (simp add: generate_response_def generate_text_def)
  moreover have "\<exists>l r. t = l @ strip t @ r \<and> list_all isspace l \<and> list_all isspace r"
    using strip_decomp [of t] unfolding list_all_iff by blast
  ultimately show ?thesis using strip_hd [of t] strip_last [of t] by blast
qed

text \<open>A reply without a text, or with the empty text: the placeholder.\<close>

lemma generate_response_placeholder:
  assumes "model (gemini_prompt product_line u ps c) = Inr r"
    and "r = NoResponse \<or> r = Response None \<or> r = Response (Some [])"
  shows "generate_response model product_line u ps c = Inr no_response_text"
  using assms by (auto simp: generate_response_def generate_text_def strip_no_response_text)

text \<open>
  Claim C7. The claim has every successful reply trimmed before use, and a reply whose
  text is empty replaced by the placeholder, so that the request does not fail and both
  turns are saved. \<open>_generate_text\<close> tests the text before \<open>generate_response\<close> trims it:
  a reply of whitespace only passes the test and is trimmed to the empty text. For the
  example table and request, the user turn is saved, the assistant turn is refused by
  the constructor, and the request fails with the user turn left in the table.
\<close>

theorem process_message_whitespace_reply:
  "generate_response (\<lambda>p. Inr (Response (Some ''   ''))) (\<lambda>p::unit. []) ''Busco Nike'' [] c
     = Inr []
   \<and> process_message (gemini_service (\<lambda>p. Inr (Response (Some ''   '')))) []
       100 200 None None db3 req1
     = (Inl (ChatServiceError
               (''Error en el servicio de chat: message no puede estar vac'' @ [i_acute] @ ''o'')),
        db3 @ [row 4 ''s1'' ''user'' ''Busco Nike'' 100])"
  by (simp add: process_message_def SQLChatRepository_get_recent_messages_def session_rows_def
        order_by_desc_timestamp_def sql_limit_def db3_def req1_def row_def
        model_to_entity_def ChatMessage_init_def strip_def lstrip_def rstrip_def isspace_def
        gemini_service_def generate_response_def generate_text_def raise_ChatServiceError_def
        save_message_def new_rowid_def max_rowid_def)

section \<open>Reading the history of a session\<close>

lemma sorted_rev_desc:
  "sorted (map (\<lambda>m. - f m) xs) \<Longrightarrow> sorted (map (f :: 'a \<Rightarrow> int) (rev xs))"
  by (simp add: rev_map sorted_wrt_rev sorted_map sorted_wrt_map flip: rev_map)

lemma sorted_desc_split:
  assumes "sorted (map (\<lambda>m. - f m) xs)"
  shows "\<forall>old\<in>set (drop k xs). \<forall>r\<in>set (take k xs). (f old :: int) \<le> f r"
proof -
  have "sorted (map (\<lambda>m. - f m) (take k xs) @ map (\<lambda>m. - f m) (drop k xs))"
    using assms by (simp flip: map_append)
  then show ?thesis by (auto simp: sorted_append)
qed

lemma get_session_history_rows:
  assumes "list_all valid_row (session_rows db sid)"
    and "set rows \<subseteq> set (session_rows db sid)"
  shows "(case map_result model_to_entity rows of Inl e \<Rightarrow> Inl e
          | Inr history \<Rightarrow> map_result model_validate history) = Inr (map row_dto rows)"
proof -
  have "list_all valid_row rows" using assms by (auto simp: list_all_iff)
  then show ?thesis by (simp add: map_result_model_to_entity map_result_model_validate)
qed

lemma ChatService_get_session_history_valid:
  assumes "list_all valid_row (session_rows db sid)"
  shows "ChatService_get_session_history db sid limit =
           Inr (map row_dto (rev (case limit of None \<Rightarrow> order_by_desc_timestamp (session_rows db sid)
                 | Some n \<Rightarrow> if n \<noteq> 0 then sql_limit n (order_by_desc_timestamp (session_rows db sid))
                             else order_by_desc_timestamp (session_rows db sid))))"
proof -
  let ?q = "case limit of None \<Rightarrow> order_by_desc_timestamp (session_rows db sid)
                 | Some n \<Rightarrow> if n \<noteq> 0 then sql_limit n (order_by_desc_timestamp (session_rows db sid))
                             else order_by_desc_timestamp (session_rows db sid)"
  have "set (rev ?q) \<subseteq> set (session_rows db sid)"
    by (auto simp: sql_limit_def order_by_desc_timestamp_def split: option.splits if_splits
             dest: in_set_takeD)
  then have "(case map_result model_to_entity (rev ?q) of Inl e \<Rightarrow> Inl e
          | Inr history \<Rightarrow> map_result model_validate history) = Inr (map row_dto (rev ?q))"
    using assms get_session_history_rows by blast
  then show ?thesis
    by (simp add: ChatService_get_session_history_def SQLChatRepository_get_session_history_def Let_def)
qed

text \<open>
  For a session whose rows load, and a limit \<open>n \<ge> 1\<close>, the history returned holds
  \<open>min n (number of turns of the session)\<close> turns of the session, none of them older than
  a turn left out, in ascending order of the timestamps; without a limit it holds every
  turn of the session, in ascending order of the timestamps.
\<close>

lemma get_session_history_positive_limit:
  assumes valid: "list_all valid_row (session_rows db sid)"
  shows "(1 \<le> n \<longrightarrow>
           (\<exists>rows older.
              ChatService_get_session_history db sid (Some n) = Inr (map row_dto rows)
            \<and> mset (session_rows db sid) = mset older + mset rows
            \<and> length rows = min (nat n) (length (session_rows db sid))
            \<and> (\<forall>old\<in>set older. \<forall>r\<in>set rows. row_timestamp old \<le> row_timestamp r)
            \<and> sorted (map row_timestamp rows)))
       \<and> (\<exists>rows.
              ChatService_get_session_history db sid None = Inr (map row_dto rows)
            \<and> mset rows = mset (session_rows db sid)
            \<and> sorted (map row_timestamp rows))"
proof -
  let ?S = "session_rows db sid"
  let ?L = "order_by_desc_timestamp ?S"
  have sL: "sorted (map (\<lambda>m. - row_timestamp m) ?L)"
    by (simp add: order_by_desc_timestamp_def)
  have mL: "mset ?L = mset ?S" by (simp add: order_by_desc_timestamp_def)
  have lL: "length ?L = length ?S" by (simp add: order_by_desc_timestamp_def)
  have 1: "\<exists>rows older.
              ChatService_get_session_history db sid (Some n) = Inr (map row_dto rows)
            \<and> mset ?S = mset older + mset rows
            \<and> length rows = min (nat n) (length ?S)
            \<and> (\<forall>old\<in>set older. \<forall>r\<in>set rows. row_timestamp old \<le> row_timestamp r)
            \<and> sorted (map row_timestamp rows)" if n: "1 \<le> n"
  proof -
    let ?rows = "rev (take (nat n) ?L)"
    let ?older = "drop (nat n) ?L"
    have a: "ChatService_get_session_history db sid (Some n) = Inr (map row_dto ?rows)"
      using n by (simp add: ChatService_get_session_history_valid [OF valid] sql_limit_def)
    have "mset ?L = mset (take (nat n) ?L) + mset ?older"
      by (simp flip: mset_append)
    then have b: "mset ?S = mset ?older + mset ?rows" using mL by simp
    have c: "length ?rows = min (nat n) (length ?S)" using lL by simp
    have d: "\<forall>old\<in>set ?older. \<forall>r\<in>set ?rows. row_timestamp old \<le> row_timestamp r"
      using sorted_desc_split [OF sL, of "nat n"] by simp
    have "sorted (map (\<lambda>m. - row_timestamp m) (take (nat n) ?L))"
      using sL by (simp add: take_map [symmetric] sorted_wrt_take del: take_map)
    then have e: "sorted (map row_timestamp ?rows)" by (rule sorted_rev_desc)
    show ?thesis using a b c d e by blast
  qed
  have 2: "\<exists>rows.
              ChatService_get_session_history db sid None = Inr (map row_dto rows)
            \<and> mset rows = mset ?S
            \<and> sorted (map row_timestamp rows)"
  proof -
    have a: "ChatService_get_session_history db sid None = Inr (map row_dto (rev ?L))"
      by (simp add: ChatService_get_session_history_valid [OF valid])
    have b: "mset (rev ?L) = mset ?S" using mL by simp
    have c: "sorted (map row_timestamp (rev ?L))" using sL by (rule sorted_rev_desc)
    show ?thesis using a b c by blast
  qed
  show ?thesis using 1 2 by blast
qed

text \<open>
  Claim C8. The claim bounds the number of turns returned by every limit given. The
  guard \<open>if limit\<close> is meant for a missing limit and is false for the limit 0 as well, so
  the \<open>LIMIT\<close> clause is skipped: for the session \<open>s1\<close> of the example table, which has
  two turns, the limit 0 returns both, where at most 0 turns were to be returned.
\<close>

theorem get_session_history_zero_limit:
  "ChatService_get_session_history db3 ''s1'' (Some 0)
     = Inr [row_dto (row 1 ''s1'' ''user'' ''a'' 10), row_dto (row 3 ''s1'' ''assistant'' ''c'' 30)]
   \<and> \<not> int (length [row_dto (row 1 ''s1'' ''user'' ''a'' 10),
                       row_dto (row 3 ''s1'' ''assistant'' ''c'' 30)]) \<le> 0"
  by (simp add: ChatService_get_session_history_def SQLChatRepository_get_session_history_def
        session_rows_def order_by_desc_timestamp_def db3_def row_def row_dto_def
        model_to_entity_def ChatMessage_init_def strip_def lstrip_def rstrip_def isspace_def
        model_validate_def)

end
